theory Spec2Isabelle
  imports Complex_Main "HOL-Library.Sublist"
begin

section \<open>Numeric model\<close>

text \<open>
  The program computes with IEEE doubles held in numpy arrays. A finite double is modelled
  by the real number it denotes, and arithmetic on finite doubles by exact real arithmetic
  (rounding error and overflow are outside the model: the properties below are stated
  exactly where the program's documentation says "within floating tolerance"). NaN is a
  value the program tests for (\<^verbatim>\<open>np.isnan\<close>) and is modelled explicitly where a
  voxel of a vector field may hold it: a component is a \<open>real option\<close>, \<open>None\<close> for NaN.
\<close>

type_synonym vec3 = "real \<times> real \<times> real"

type_synonym fl = "real option"

type_synonym fvec = "fl \<times> fl \<times> fl"

definition dot3 :: "vec3 \<Rightarrow> vec3 \<Rightarrow> real" where
  \<comment> \<open>\<^verbatim>\<open>np.sum(vec1 * vec2, axis=0)\<close>\<close>
  "dot3 u v = (case u of (a, b, c) \<Rightarrow> case v of (d, e, f) \<Rightarrow> a * d + b * e + c * f)"

definition norm3 :: "vec3 \<Rightarrow> real" where
  \<comment> \<open>\<^verbatim>\<open>np.linalg.norm(vec, axis=0)\<close>\<close>
  "norm3 v = (case v of (a, b, c) \<Rightarrow> sqrt (a * a + b * b + c * c))"

definition add3 :: "vec3 \<Rightarrow> vec3 \<Rightarrow> vec3" where
  "add3 u v = (case u of (a, b, c) \<Rightarrow> case v of (d, e, f) \<Rightarrow> (a + d, b + e, c + f))"

definition scale3 :: "real \<Rightarrow> vec3 \<Rightarrow> vec3" where
  "scale3 k v = (case v of (a, b, c) \<Rightarrow> (a * k, b * k, c * k))"

definition neg3 :: "vec3 \<Rightarrow> vec3" where
  "neg3 v = (case v of (a, b, c) \<Rightarrow> (- a, - b, - c))"

section \<open>amira\_writer.py: angle\_between\_vectors\<close>

definition epsilon :: real where
  "epsilon = 1 / 10 ^ 10"

definition np_clip :: "real \<Rightarrow> real \<Rightarrow> real \<Rightarrow> real" where
  \<comment> \<open>\<^verbatim>\<open>np.clip(a, a_min, a_max)\<close> is \<^verbatim>\<open>minimum(a_max, maximum(a, a_min))\<close>\<close>
  "np_clip a a_min a_max = min a_max (max a a_min)"

definition rad2deg :: "real \<Rightarrow> real" where
  "rad2deg r = r * 180 / pi"

definition angle_between_vectors :: "vec3 \<Rightarrow> vec3 \<Rightarrow> real" where
  \<comment> \<open>The source works element-wise over the trailing axes of two arrays of shape
      \<open>(3, \<dots>)\<close>; this is the computation at one element, which is also the whole
      computation for the two arrays of shape \<open>(3,)\<close> the tracer passes.\<close>
  "angle_between_vectors vec1 vec2 =
     (let dot_product = dot3 vec1 vec2;
          magnitude_vec1 = max (norm3 vec1) epsilon;
          magnitude_vec2 = max (norm3 vec2) epsilon;
          cos_theta = dot_product / (magnitude_vec1 * magnitude_vec2);
          cos_theta = np_clip cos_theta (- 1) 1
      in rad2deg (arccos cos_theta))"

section \<open>amira\_writer.py: scale\_points\<close>

definition scale_points :: "vec3 list list \<Rightarrow> real \<Rightarrow> vec3 list list" where
  "scale_points consecutive_points pixel_size =
     map (\<lambda>point_list.
            map (\<lambda>point. case point of (p0, p1, p2) \<Rightarrow>
                   (p0 * pixel_size, p1 * pixel_size, p2 * pixel_size)) point_list)
         consecutive_points"

section \<open>amira\_writer.py: find\_consecutive\_points\<close>

text \<open>
  An array of shape \<open>(3, Z, Y, X)\<close>: its last three extents and the three components
  stored at each voxel. Reads happen only at indices the code has checked against the
  shape, so the contents outside the shape are never looked at.
\<close>

record vfield =
  shape_z :: nat
  shape_y :: nat
  shape_x :: nat
  voxel :: "nat \<Rightarrow> nat \<Rightarrow> nat \<Rightarrow> fvec"

definition np_round :: "real \<Rightarrow> int" where
  \<comment> \<open>\<^verbatim>\<open>int(np.round(x))\<close>: to the nearest integer, a tie to the even one\<close>
  "np_round x =
     (let f = \<lfloor>x\<rfloor>; r = x - of_int f
      in if r < 1 / 2 then f else if 1 / 2 < r then f + 1 else if even f then f else f + 1)"

definition py_int :: "real \<Rightarrow> int" where
  \<comment> \<open>\<^verbatim>\<open>int(x)\<close> of a float: truncation towards zero\<close>
  "py_int x = (if 0 \<le> x then \<lfloor>x\<rfloor> else \<lceil>x\<rceil>)"

definition round3 :: "vec3 \<Rightarrow> int \<times> int \<times> int" where
  "round3 p = (case p of (a, b, c) \<Rightarrow> (np_round a, np_round b, np_round c))"

definition trunc3 :: "vec3 \<Rightarrow> vec3" where
  \<comment> \<open>\<^verbatim>\<open>tuple(map(int, next_point))\<close>, read back as numbers\<close>
  "trunc3 p = (case p of (a, b, c) \<Rightarrow>
     (of_int (py_int a), of_int (py_int b), of_int (py_int c)))"

definition in_bounds :: "vfield \<Rightarrow> int \<times> int \<times> int \<Rightarrow> bool" where
  "in_bounds vector_field p = (case p of (z, y, x) \<Rightarrow>
     0 \<le> z \<and> z < int (shape_z vector_field)
     \<and> 0 \<le> y \<and> y < int (shape_y vector_field)
     \<and> 0 \<le> x \<and> x < int (shape_x vector_field))"

definition fmul :: "fl \<Rightarrow> real \<Rightarrow> fl" where
  \<comment> \<open>a product with a NaN factor is NaN\<close>
  "fmul a k = (case a of None \<Rightarrow> None | Some r \<Rightarrow> Some (r * k))"

definition direction_at :: "vfield \<Rightarrow> int \<times> int \<times> int \<Rightarrow> real \<Rightarrow> fvec" where
  \<comment> \<open>\<^verbatim>\<open>vector_field[:, z, y, x] * segment_length\<close>\<close>
  "direction_at vector_field p segment_length = (case p of (z, y, x) \<Rightarrow>
     case voxel vector_field (nat z) (nat y) (nat x) of (a, b, c) \<Rightarrow>
       (fmul a segment_length, fmul b segment_length, fmul c segment_length))"

definition finite_vec :: "fvec \<Rightarrow> vec3 option" where
  \<comment> \<open>\<open>None\<close> when \<^verbatim>\<open>np.isnan(v).any()\<close>, else the three numbers\<close>
  "finite_vec v = (case v of
       (Some a, Some b, Some c) \<Rightarrow> Some (a, b, c)
     | _ \<Rightarrow> None)"

definition array_any :: "vec3 option \<Rightarrow> bool" where
  \<comment> \<open>\<^verbatim>\<open>direction_vector_tmp.any()\<close>; \<open>None\<close> is the empty array \<^verbatim>\<open>np.array([])\<close>\<close>
  "array_any t = (case t of None \<Rightarrow> False | Some (a, b, c) \<Rightarrow> a \<noteq> 0 \<or> b \<noteq> 0 \<or> c \<noteq> 0)"

definition angle_stop :: "vec3 option \<Rightarrow> vec3 \<Rightarrow> real \<Rightarrow> bool" where
  \<comment> \<open>the two nested conditions that lead to the angle-threshold \<^verbatim>\<open>break\<close>\<close>
  "angle_stop direction_vector_tmp direction_vector angle_threshold =
     (case direction_vector_tmp of
        None \<Rightarrow> False
      | Some t \<Rightarrow> array_any (Some t) \<and> angle_between_vectors t direction_vector > angle_threshold)"

fun tracer_loop ::
  "vfield \<Rightarrow> real \<Rightarrow> real \<Rightarrow> nat \<Rightarrow> vec3 \<Rightarrow> vec3 option \<Rightarrow> vec3 list \<Rightarrow> vec3 list" where
  "tracer_loop vector_field segment_length angle_threshold 0
       current_point direction_vector_tmp consecutive_points = consecutive_points"
| "tracer_loop vector_field segment_length angle_threshold (Suc n)
       current_point direction_vector_tmp consecutive_points =
     (if in_bounds vector_field (round3 current_point) then
        (case finite_vec (direction_at vector_field (round3 current_point) segment_length) of
           None \<Rightarrow> consecutive_points
         | Some direction_vector \<Rightarrow>
             if angle_stop direction_vector_tmp direction_vector angle_threshold
             then consecutive_points
             else
               if in_bounds vector_field (round3 (add3 current_point direction_vector))
               then tracer_loop vector_field segment_length angle_threshold n
                      (trunc3 (add3 current_point direction_vector))
                      (Some direction_vector)
                      (consecutive_points @ [add3 current_point direction_vector])
               else consecutive_points)
      else consecutive_points)"

definition float3 :: "int \<times> int \<times> int \<Rightarrow> vec3" where
  "float3 p = (case p of (z, y, x) \<Rightarrow> (of_int z, of_int y, of_int x))"

definition find_consecutive_points ::
  "int \<times> int \<times> int \<Rightarrow> vfield \<Rightarrow> int \<Rightarrow> real \<Rightarrow> real \<Rightarrow> vec3 list" where
  \<comment> \<open>\<^verbatim>\<open>range(num_steps)\<close> is empty for a negative \<^verbatim>\<open>num_steps\<close>\<close>
  "find_consecutive_points start_point vector_field num_steps segment_length angle_threshold =
     tracer_loop vector_field segment_length angle_threshold (nat num_steps)
       (float3 start_point) None [float3 start_point]"

section \<open>amira\_writer.py: write\_am\_file\<close>

definition str_digit :: "nat \<Rightarrow> char" where
  "str_digit d = ''0123456789'' ! d"

fun str_nat :: "nat \<Rightarrow> string" where
  "str_nat n = (if n < 10 then [str_digit n] else str_nat (n div 10) @ [str_digit (n mod 10)])"

declare str_nat.simps [simp del]

definition triple_line :: "(fl \<Rightarrow> string) \<Rightarrow> vec3 \<Rightarrow> string" where
  \<comment> \<open>\<^verbatim>\<open>f"{p[0]} {p[1]} {p[2]}\n"\<close>\<close>
  "triple_line repr p = (case p of (p0, p1, p2) \<Rightarrow>
     repr (Some p0) @ '' '' @ repr (Some p1) @ '' '' @ repr (Some p2) @ ''\<newline>'')"

definition write_am_file :: "(fl \<Rightarrow> string) \<Rightarrow> vec3 list list \<Rightarrow> fl list \<Rightarrow> fl list \<Rightarrow> string" where
  \<comment> \<open>The text written to \<^verbatim>\<open>file_path\<close>, in the order of the \<^verbatim>\<open>f.write\<close> calls.
      \<open>repr\<close> is Python's formatting of a float inside an f-string, a parameter here.\<close>
  "write_am_file repr consecutive_points_list HA_angle z_angle =
     (let N_point = sum_list (map length consecutive_points_list) in
      ''# AmiraMesh 3D ASCII 3.0\<newline>\<newline>\<newline>''
      @ ''define VERTEX '' @ str_nat (length consecutive_points_list * 2) @ ''\<newline>''
      @ ''define EDGE '' @ str_nat (length consecutive_points_list) @ ''\<newline>''
      @ ''define POINT '' @ str_nat N_point @ ''\<newline>''
      @ ''\<newline>Parameters {\<newline>    ContentType '' @ [CHR 0x22] @ ''HxSpatialGraph''
          @ [CHR 0x22] @ ''\<newline>}\<newline>\<newline>''
      @ ''VERTEX { float[3] VertexCoordinates } @1\<newline>''
      @ ''EDGE { int[2] EdgeConnectivity } @2\<newline>''
      @ ''EDGE { int NumEdgePoints } @3\<newline>''
      @ ''POINT { float[3] EdgePointCoordinates } @4\<newline>''
      @ ''POINT { float thickness } @5\<newline>''
      @ ''POINT { float HA_angle } @6\<newline>''
      @ ''POINT { float z_angle } @7\<newline>''
      @ ''\<newline># Data section follows\<newline>''
      @ ''@1\<newline>''
      @ concat (map (\<lambda>segment.
                  if length segment \<ge> 2
                  then triple_line repr (hd segment) @ triple_line repr (last segment)
                  else []) consecutive_points_list)
      @ ''\<newline>@2\<newline>''
      @ concat (map (\<lambda>i. str_nat (i * 2) @ '' '' @ str_nat (i * 2 + 1) @ ''\<newline>'')
                  [0..<length consecutive_points_list])
      @ ''\<newline>@3\<newline>''
      @ concat (map (\<lambda>segment. str_nat (length segment) @ ''\<newline>'') consecutive_points_list)
      @ ''\<newline>@4\<newline>''
      @ concat (map (\<lambda>segment. concat (map (triple_line repr) segment)) consecutive_points_list)
      @ ''\<newline>@5\<newline>''
      @ concat (map (\<lambda>segment. concat (replicate (length segment) ''1.0\<newline>''))
                  consecutive_points_list)
      @ ''\<newline>@6\<newline>''
      @ concat (map (\<lambda>angle. repr angle @ ''\<newline>'') HA_angle)
      @ ''\<newline>@7\<newline>''
      @ concat (map (\<lambda>angle. repr angle @ ''\<newline>'') z_angle))"

subsection \<open>Reading an AmiraMesh text back\<close>

text \<open>
  These functions are not part of the program: they read a written file the way a
  consumer of the format does, line by line, so that what the file declares and lists can
  be stated.
\<close>

fun split_lines :: "string \<Rightarrow> string list" where
  \<comment> \<open>the lines of a text, split at every newline (Python's \<^verbatim>\<open>text.split("\n")\<close>)\<close>
  "split_lines [] = [[]]"
| "split_lines (c # cs) =
     (if c = CHR 0x0A then [] # split_lines cs
      else (case split_lines cs of [] \<Rightarrow> [[c]] | l # ls \<Rightarrow> (c # l) # ls))"

definition unlines :: "string list \<Rightarrow> string" where
  \<comment> \<open>each line followed by a newline\<close>
  "unlines ls = concat (map (\<lambda>l. l @ [CHR 0x0A]) ls)"

definition triple_text :: "(fl \<Rightarrow> string) \<Rightarrow> vec3 \<Rightarrow> string" where
  \<comment> \<open>a line of three numbers, without its newline\<close>
  "triple_text repr p = (case p of (p0, p1, p2) \<Rightarrow>
     repr (Some p0) @ '' '' @ repr (Some p1) @ '' '' @ repr (Some p2))"

definition vertex_lines :: "(fl \<Rightarrow> string) \<Rightarrow> vec3 list list \<Rightarrow> string list" where
  \<comment> \<open>the lines of the \<open>@1\<close> section\<close>
  "vertex_lines repr cpl = concat (map (\<lambda>segment.
       if length segment \<ge> 2 then [triple_text repr (hd segment), triple_text repr (last segment)]
       else []) cpl)"

definition am_lines :: "(fl \<Rightarrow> string) \<Rightarrow> vec3 list list \<Rightarrow> fl list \<Rightarrow> fl list \<Rightarrow> string list" where
  \<comment> \<open>the text of \<open>write_am_file\<close> line by line (shown equal to it below)\<close>
  "am_lines repr cpl ha za =
     [''# AmiraMesh 3D ASCII 3.0'', [], [],
      ''define VERTEX '' @ str_nat (length cpl * 2),
      ''define EDGE '' @ str_nat (length cpl),
      ''define POINT '' @ str_nat (sum_list (map length cpl)),
      [], ''Parameters {'', ''    ContentType '' @ [CHR 0x22] @ ''HxSpatialGraph'' @ [CHR 0x22],
      ''}'', [],
      ''VERTEX { float[3] VertexCoordinates } @1'',
      ''EDGE { int[2] EdgeConnectivity } @2'',
      ''EDGE { int NumEdgePoints } @3'',
      ''POINT { float[3] EdgePointCoordinates } @4'',
      ''POINT { float thickness } @5'',
      ''POINT { float HA_angle } @6'',
      ''POINT { float z_angle } @7'',
      [], ''# Data section follows'', ''@1'']
     @ vertex_lines repr cpl
     @ [[], ''@2'']
     @ map (\<lambda>i. str_nat (i * 2) @ '' '' @ str_nat (i * 2 + 1)) [0..<length cpl]
     @ [[], ''@3'']
     @ map (\<lambda>segment. str_nat (length segment)) cpl
     @ [[], ''@4'']
     @ map (triple_text repr) (concat cpl)
     @ [[], ''@5'']
     @ replicate (length (concat cpl)) ''1.0''
     @ [[], ''@6'']
     @ map repr ha
     @ [[], ''@7'']
     @ map repr za"

definition read_nat :: "string \<Rightarrow> nat" where
  \<comment> \<open>the number a string of decimal digits denotes\<close>
  "read_nat s = foldl (\<lambda>acc c. 10 * acc + (of_char c - 48)) 0 s"

definition am_declared :: "string \<Rightarrow> string list \<Rightarrow> string option" where
  \<comment> \<open>the text after \<^verbatim>\<open>define KEY \<close> on the first line that starts so\<close>
  "am_declared key ls =
     (case filter (\<lambda>l. take (length (''define '' @ key @ '' '')) l = ''define '' @ key @ '' '') ls of
        [] \<Rightarrow> None
      | l # _ \<Rightarrow> Some (drop (length (''define '' @ key @ '' '')) l))"

definition am_section :: "string \<Rightarrow> string list \<Rightarrow> string list" where
  \<comment> \<open>the lines after the first line that is exactly the tag, up to the next empty line\<close>
  "am_section tag ls = takeWhile (\<lambda>l. l \<noteq> []) (drop 1 (dropWhile (\<lambda>l. l \<noteq> tag) ls))"

section \<open>amira\_writer.py: amira\_writer\<close>




definition fneg :: "fl \<Rightarrow> fl" where
  "fneg a = (case a of None \<Rightarrow> None | Some r \<Rightarrow> Some (r * (- 1)))"

definition flip_voxel :: "fvec \<Rightarrow> fvec" where
  \<comment> \<open>\<^verbatim>\<open>vector_field[:, vector_field[0] > 0] *= -1\<close> at one voxel; \<^verbatim>\<open>nan > 0\<close> is false\<close>
  "flip_voxel v = (case v of (a, b, c) \<Rightarrow>
     if (case a of None \<Rightarrow> False | Some r \<Rightarrow> r > 0) then (fneg a, fneg b, fneg c) else (a, b, c))"

definition flip_field :: "vfield \<Rightarrow> vfield" where
  "flip_field vector_field =
     vector_field\<lparr>voxel := (\<lambda>z y x. flip_voxel (voxel vector_field z y x))\<rparr>"





fun trace_points ::
  "vfield \<Rightarrow> int \<Rightarrow> int \<Rightarrow> real \<Rightarrow> real \<Rightarrow> int \<Rightarrow> (nat \<times> nat \<times> nat) list
   \<Rightarrow> vec3 list list \<Rightarrow> vec3 list list" where
  \<comment> \<open>the loop over \<^verbatim>\<open>random_points\<close>, \<open>acc\<close> being \<^verbatim>\<open>consecutive_points_list\<close>\<close>
  "trace_points vector_field start_index num_steps segment_length angle_threshold
       segment_min_length_threshold [] acc = acc"
| "trace_points vector_field start_index num_steps segment_length angle_threshold
       segment_min_length_threshold (point # rest) acc =
     (let consecutive_points =
            find_consecutive_points (case point of (z, y, x) \<Rightarrow> (int z, int y, int x))
              vector_field num_steps segment_length angle_threshold;
          consecutive_points =
            map (\<lambda>point. case point of (p0, p1, p2) \<Rightarrow> (p0 + of_int start_index, p1, p2))
              consecutive_points
      in trace_points vector_field start_index num_steps segment_length angle_threshold
           segment_min_length_threshold rest
           (if int (length consecutive_points) \<ge> segment_min_length_threshold
            then acc @ [consecutive_points] else acc))"








section \<open>orientation\_computation\_pipeline.py: compute\_orientation\<close>

text \<open>
  The part of \<^verbatim>\<open>compute_orientation\<close> between the structure tensor and the dispatch:
  the padding slices are stripped, the eigenvector field is divided by its norm, and one
  task per remaining slice \<open>z\<close> is handed \<^verbatim>\<open>vec[:, z, :, :]\<close>. The field is held as the
  list of its Z slices, a slice as rows (Y) of voxels (X).
\<close>

type_synonym vslice = "fvec list list"

definition remove_padding :: "'a list \<Rightarrow> nat \<Rightarrow> nat \<Rightarrow> 'a list" where
  \<comment> \<open>Modelled from the spec: \<^verbatim>\<open>remove_padding\<close> lives in
      \<^verbatim>\<open>orientation_computation_functions\<close>, which is not among the source files. The
      spec calls it a pure crop along Z: the output has the input's slice count less
      \<open>padding_start\<close> and \<open>padding_end\<close>, and the surviving slices are unchanged.\<close>
  "remove_padding slices padding_start padding_end =
     take (length slices - padding_end - padding_start) (drop padding_start slices)"

definition normalize_voxel :: "fvec \<Rightarrow> fvec" where
  \<comment> \<open>\<^verbatim>\<open>vec / np.linalg.norm(vec, axis=0)\<close> at one voxel: a NaN component makes the norm,
      and with it every quotient, NaN; the zero vector gives 0/0, NaN again\<close>
  "normalize_voxel v = (case finite_vec v of
       None \<Rightarrow> (None, None, None)
     | Some (a, b, c) \<Rightarrow>
         if norm3 (a, b, c) = 0 then (None, None, None)
         else (Some (a / norm3 (a, b, c)), Some (b / norm3 (a, b, c)),
               Some (c / norm3 (a, b, c))))"

definition dispatched_slices :: "vslice list \<Rightarrow> nat \<Rightarrow> nat \<Rightarrow> (nat \<times> vslice) list" where
  \<comment> \<open>the pairs \<open>(z, vec[:, z, :, :])\<close> passed to
      \<^verbatim>\<open>compute_slice_angles_and_anisotropy\<close>, the same on the pool and on the
      single-thread path\<close>
  "dispatched_slices vec padding_start padding_end =
     (let vec = remove_padding vec padding_start padding_end;
          vec = map (map (map normalize_voxel)) vec
      in map (\<lambda>z. (z, vec ! z)) [0..<length vec])"

section \<open>orientation\_computation\_pipeline.py: compute\_slice\_angles\_and\_anisotropy\<close>

text \<open>
  What a call does to the world: the paths that exist, and the calls it makes to the
  numeric helpers and writers, in order. The helpers themselves
  (\<^verbatim>\<open>compute_fraction_anisotropy\<close>, \<^verbatim>\<open>rotate_vectors_to_new_axis\<close>,
  \<^verbatim>\<open>compute_helix_and_transverse_angles\<close>, \<^verbatim>\<open>plot_images\<close>) are not among the source
  files; a call to one is recorded as an event.
\<close>

datatype event =
    Compute_FA
  | Rotate_vectors
  | Compute_angles
  | Plot_images
  | Write_file string

record world =
  files :: "string set"
  events :: "event list"

definition format_06d :: "int \<Rightarrow> string" where
  \<comment> \<open>\<^verbatim>\<open>f"{n:06d}"\<close>: decimal digits, zero-filled to six characters, the sign first\<close>
  "format_06d n =
     (if 0 \<le> n
      then replicate (6 - length (str_nat (nat n))) (CHR ''0'') @ str_nat (nat n)
      else ''-'' @ replicate (5 - length (str_nat (nat (- n)))) (CHR ''0'') @ str_nat (nat (- n)))"

definition slice_paths :: "string \<Rightarrow> int \<Rightarrow> int \<Rightarrow> string list" where
  "slice_paths OUTPUT_DIR start_index z =
     [OUTPUT_DIR @ ''/HA/HA_'' @ format_06d (start_index + z) @ ''.tif'',
      OUTPUT_DIR @ ''/IA/IA_'' @ format_06d (start_index + z) @ ''.tif'',
      OUTPUT_DIR @ ''/FA/FA_'' @ format_06d (start_index + z) @ ''.tif'']"

definition eigen_vec_path :: "string \<Rightarrow> int \<Rightarrow> int \<Rightarrow> string" where
  "eigen_vec_path OUTPUT_DIR start_index z =
     OUTPUT_DIR @ ''/eigen_vec/eigen_vec_'' @ format_06d (start_index + z) @ ''.npy''"

definition write_path :: "string \<Rightarrow> world \<Rightarrow> world" where
  "write_path path w = w\<lparr>files := insert path (files w), events := events w @ [Write_file path]\<rparr>"

definition call :: "event \<Rightarrow> world \<Rightarrow> world" where
  "call e w = w\<lparr>events := events w @ [e]\<rparr>"

definition write_images :: "string \<Rightarrow> string \<Rightarrow> int \<Rightarrow> int \<Rightarrow> world \<Rightarrow> world" where
  \<comment> \<open>Modelled from the spec: \<^verbatim>\<open>write_images\<close> is not among the source files. The spec
      puts the three angle images at \<^verbatim>\<open>{OUTPUT_DIR}/HA|IA|FA/{TYPE}_{index:06d}.<ext>\<close>.\<close>
  "write_images OUTPUT_DIR OUTPUT_FORMAT start_index z w =
     write_path (OUTPUT_DIR @ ''/FA/FA_'' @ format_06d (start_index + z) @ ''.'' @ OUTPUT_FORMAT)
       (write_path (OUTPUT_DIR @ ''/IA/IA_'' @ format_06d (start_index + z) @ ''.'' @ OUTPUT_FORMAT)
          (write_path (OUTPUT_DIR @ ''/HA/HA_'' @ format_06d (start_index + z) @ ''.'' @ OUTPUT_FORMAT)
             w))"

definition write_vector_field :: "string \<Rightarrow> int \<Rightarrow> int \<Rightarrow> world \<Rightarrow> world" where
  \<comment> \<open>Modelled from the spec: \<^verbatim>\<open>write_vector_field\<close> is not among the source files. The
      spec puts the slice at \<^verbatim>\<open>{OUTPUT_DIR}/eigen_vec/eigen_vec_{index:06d}.npy\<close>.\<close>
  "write_vector_field OUTPUT_DIR start_index z w =
     write_path (eigen_vec_path OUTPUT_DIR start_index z) w"

definition compute_slice_angles_and_anisotropy ::
  "int \<Rightarrow> string \<Rightarrow> string \<Rightarrow> int \<Rightarrow> bool \<Rightarrow> bool \<Rightarrow> world \<Rightarrow> world" where
  "compute_slice_angles_and_anisotropy z OUTPUT_DIR OUTPUT_FORMAT start_index IS_VECTORS IS_TEST w =
     (let paths = slice_paths OUTPUT_DIR start_index z in
      if \<not> IS_TEST \<and> list_all (\<lambda>path. path \<in> files w) paths then w
      else
        (let w = call Compute_FA w;
             w = call Rotate_vectors w;
             w = call Compute_angles w
         in if IS_TEST then call Plot_images w
            else
              (let w = write_images OUTPUT_DIR OUTPUT_FORMAT start_index z w
               in if IS_VECTORS then write_vector_field OUTPUT_DIR start_index z w else w)))"

section \<open>The course of a trace\<close>


section \<open>Concrete inputs\<close>

definition field_z :: vfield where
  \<comment> \<open>a 2 x 2 x 2 volume, every vector the unit vector along +Z\<close>
  "field_z = \<lparr>shape_z = 2, shape_y = 2, shape_x = 2,
              voxel = (\<lambda>z y x. (Some 1, Some 0, Some 0))\<rparr>"

definition field_diag :: vfield where
  \<comment> \<open>a 20 x 20 x 20 volume, every vector the unit vector \<open>(-0.6, -0.8, 0)\<close>\<close>
  "field_diag = \<lparr>shape_z = 20, shape_y = 20, shape_x = 20,
                 voxel = (\<lambda>z y x. (Some (- (3 / 5)), Some (- (4 / 5)), Some 0))\<rparr>"


section \<open>Properties of angle\_between\_vectors and scale\_points\<close>


lemma epsilon_lt_1: "epsilon < 1"
  by (simp add: epsilon_def)


lemma dot3_self: "dot3 v v = (norm3 v)\<^sup>2"
proof -
  obtain a b c where v: "v = (a, b, c)" by (cases v) auto
  have "0 \<le> a * a + b * b + c * c" by (simp add: add_nonneg_nonneg)
  then show ?thesis by (simp add: v dot3_def norm3_def)
qed

lemma dot3_neg: "dot3 v (neg3 v) = - (norm3 v)\<^sup>2"
proof -
  obtain a b c where v: "v = (a, b, c)" by (cases v) auto
  have "0 \<le> a * a + b * b + c * c" by (simp add: add_nonneg_nonneg)
  then show ?thesis by (simp add: v dot3_def norm3_def neg3_def)
qed

lemma norm3_neg: "norm3 (neg3 v) = norm3 v"
  by (cases v) (simp add: norm3_def neg3_def)

lemma angle_unit_self:
  assumes "norm3 v = 1"
  shows "angle_between_vectors v v = 0"
proof -
  have m: "max (1::real) epsilon = 1"
    using epsilon_lt_1 by simp
  show ?thesis
    by (simp add: angle_between_vectors_def dot3_self assms m np_clip_def rad2deg_def)
qed

text \<open>
  C8. For every unit vector \<open>v\<close>, the angle between \<open>v\<close> and itself is 0 degrees and the
  angle between \<open>v\<close> and \<open>-v\<close> is 180 degrees (exactly, in real arithmetic).
\<close>

theorem angle_between_vectors_unit:
  assumes "norm3 v = 1"
  shows "angle_between_vectors v v = 0 \<and> angle_between_vectors v (neg3 v) = 180"
proof -
  have m: "max (1::real) epsilon = 1"
    using epsilon_lt_1 by simp
  have "angle_between_vectors v v = 0"
    by (simp add: angle_between_vectors_def dot3_self assms m np_clip_def rad2deg_def)
  moreover have "angle_between_vectors v (neg3 v) = 180"
    by (simp add: angle_between_vectors_def dot3_neg norm3_neg assms m np_clip_def rad2deg_def)
  ultimately show ?thesis by simp
qed

theorem angle_between_vectors_unit_witness:
  "norm3 (0, 1, 0) = 1
   \<and> angle_between_vectors (0, 1, 0) (0, 1, 0) = 0
   \<and> angle_between_vectors (0, 1, 0) (neg3 (0, 1, 0)) = 180"
proof -
  have h: "norm3 (0, 1, 0) = 1" by (simp add: norm3_def)
  show ?thesis using h angle_between_vectors_unit [OF h] by simp
qed


text \<open>
  C9. For every nested point list and every positive scale \<open>s\<close>, scaling by \<open>1/s\<close> and
  then by \<open>s\<close> gives back every coordinate of every point (exactly, in real arithmetic).
\<close>

theorem scale_points_inverse:
  assumes "0 < s"
  shows "scale_points (scale_points points (1 / s)) s = points"
proof -
  have pt: "(case (case p of (p0, p1, p2) \<Rightarrow> (p0 * (1 / s), p1 * (1 / s), p2 * (1 / s)))
             of (p0, p1, p2) \<Rightarrow> (p0 * s, p1 * s, p2 * s)) = p" for p :: vec3
    using assms by (cases p) simp
  have "map (\<lambda>point_list. map (\<lambda>p. p) point_list) points = points"
    by (induction points) simp_all
  then show ?thesis
    by (simp add: scale_points_def comp_def pt del: times_divide_eq_right)
qed

theorem scale_points_inverse_witness:
  "(0::real) < 4
   \<and> scale_points (scale_points [[(1, 2, 3), (5, 6, 7)], []] (1 / 4)) 4
       = [[(1, 2, 3), (5, 6, 7)], []]"
proof -
  have h: "(0::real) < 4" by simp
  show ?thesis using h scale_points_inverse [OF h] by simp
qed

section \<open>Properties of compute\_slice\_angles\_and\_anisotropy\<close>




text \<open>
  The guard itself looks at the three images only: the eigenvector file plays no part in
  it, whether or not vector output is requested.
\<close>

lemma slice_guard_three_images:
  assumes "\<not> IS_TEST"
    and "\<forall>path \<in> set (slice_paths OUTPUT_DIR start_index z). path \<in> files w"
  shows "compute_slice_angles_and_anisotropy z OUTPUT_DIR OUTPUT_FORMAT start_index
           IS_VECTORS IS_TEST w = w"
  using assms by (simp add: compute_slice_angles_and_anisotropy_def list_all_iff)

section \<open>Properties of find\_consecutive\_points\<close>

lemma np_round_of_int: "np_round (of_int i) = i"
  by (simp add: np_round_def)

lemma round3_float3: "round3 (float3 p) = p"
  by (cases p) (simp add: round3_def float3_def np_round_of_int)

lemma tracer_loop_prefix:
  "prefix pts (tracer_loop vf seg thr n cur tmp pts)"
proof (induction n arbitrary: cur tmp pts)
  case 0
  then show ?case by simp
next
  case (Suc n)
  have "prefix pts (pts @ [add3 cur d])" for d by simp
  then have "prefix pts (tracer_loop vf seg thr n c t (pts @ [add3 cur d]))" for c t d
    using Suc.IH prefix_order.trans by blast
  then show ?case
    by (simp split: option.splits)
qed




lemma norm3_scale3: "norm3 (scale3 s u) = \<bar>s\<bar> * norm3 u"
proof -
  obtain a b c where u: "u = (a, b, c)" by (cases u) auto
  have "a * s * (a * s) + b * s * (b * s) + c * s * (c * s) = s\<^sup>2 * (a * a + b * b + c * c)"
    by (simp add: power2_eq_square algebra_simps)
  then show ?thesis
    by (simp add: u norm3_def scale3_def real_sqrt_mult)
qed

lemma dot3_scale3: "dot3 (scale3 s u) (scale3 t u) = s * t * (norm3 u)\<^sup>2"
proof -
  obtain a b c where u: "u = (a, b, c)" by (cases u) auto
  have "0 \<le> a * a + b * b + c * c" by (simp add: add_nonneg_nonneg)
  then show ?thesis
    by (simp add: u norm3_def scale3_def dot3_def algebra_simps)
qed


lemma field_z_simps:
  "shape_z field_z = 2" "shape_y field_z = 2" "shape_x field_z = 2"
  "voxel field_z z y x = (Some 1, Some 0, Some 0)"
  by (simp_all add: field_z_def)

lemma field_z_dir: "finite_vec (direction_at field_z p 1) = Some (1, 0, 0)"
  by (cases p) (simp add: direction_at_def field_z_simps fmul_def finite_vec_def)

text \<open>
  C3, as the code has it. In an iteration whose local vector has no NaN and does not trip
  the angle threshold, the tracer computes the advanced position
  \<open>current_point + vector * segment_length\<close>. If its rounded coordinates lie inside the
  volume, the floating-point position is appended to the polyline and the trace goes on
  from its coordinates truncated to integers; otherwise the trace stops and the position
  is not recorded.
\<close>

theorem tracer_step_records_in_bounds_only:
  assumes "in_bounds vf (round3 cur)"
    and "finite_vec (direction_at vf (round3 cur) seg) = Some d"
    and "\<not> angle_stop tmp d thr"
  shows "(in_bounds vf (round3 (add3 cur d)) \<longrightarrow>
            tracer_loop vf seg thr (Suc n) cur tmp pts
              = tracer_loop vf seg thr n (trunc3 (add3 cur d)) (Some d) (pts @ [add3 cur d])
            \<and> prefix (pts @ [add3 cur d]) (tracer_loop vf seg thr (Suc n) cur tmp pts))
       \<and> (\<not> in_bounds vf (round3 (add3 cur d)) \<longrightarrow>
            tracer_loop vf seg thr (Suc n) cur tmp pts = pts)"
  using assms by (simp add: tracer_loop_prefix)

theorem tracer_step_records_in_bounds_only_witness:
  "in_bounds field_z (round3 (0, 0, 0))
   \<and> finite_vec (direction_at field_z (round3 (0, 0, 0)) 1) = Some (1, 0, 0)
   \<and> \<not> angle_stop None (1, 0, 0) 60
   \<and> in_bounds field_z (round3 (add3 (0, 0, 0) (1, 0, 0)))
   \<and> prefix [(0, 0, 0), (1, 0, 0)] (tracer_loop field_z 1 60 (Suc 3) (0, 0, 0) None [(0, 0, 0)])"
proof -
  have a: "in_bounds field_z (round3 (0, 0, 0))"
    by (simp add: in_bounds_def round3_def np_round_def field_z_simps)
  have b: "finite_vec (direction_at field_z (round3 (0, 0, 0)) 1) = Some (1, 0, 0)"
    by (rule field_z_dir)
  have c: "\<not> angle_stop None (1, 0, 0) 60"
    by (simp add: angle_stop_def)
  have d: "in_bounds field_z (round3 (add3 (0, 0, 0) (1, 0, 0)))"
    by (simp add: in_bounds_def round3_def np_round_def field_z_simps add3_def)
  have e: "add3 (0, 0, 0) (1, 0, 0) = ((1, 0, 0) :: vec3)"
    by (simp add: add3_def)
  have "prefix ([(0, 0, 0)] @ [add3 (0, 0, 0) (1, 0, 0)])
          (tracer_loop field_z 1 60 (Suc 3) (0, 0, 0) None [(0, 0, 0)])"
    using tracer_step_records_in_bounds_only [OF a b c, of 3 "[(0, 0, 0)]"] d by blast
  then have p: "prefix [(0, 0, 0), (1, 0, 0)]
          (tracer_loop field_z 1 60 (Suc 3) (0, 0, 0) None [(0, 0, 0)])"
    by (simp only: e append.simps)
  show ?thesis
    by (intro conjI a b c d p)
qed

text \<open>
  C3 as stated fails: from the seed \<open>(1, 0, 0)\<close> in a 2 x 2 x 2 volume of vectors along +Z
  the first advance lands on \<open>(2, 0, 0)\<close>, outside the volume; the trace stops and the
  polyline holds the seed alone.
\<close>

theorem out_of_bounds_point_not_recorded:
  "in_bounds field_z (round3 (float3 (1, 0, 0)))
   \<and> finite_vec (direction_at field_z (round3 (float3 (1, 0, 0))) 1) = Some (1, 0, 0)
   \<and> \<not> angle_stop None (1, 0, 0) 60
   \<and> add3 (float3 (1, 0, 0)) (1, 0, 0) = (2, 0, 0)
   \<and> \<not> in_bounds field_z (round3 (2, 0, 0))
   \<and> find_consecutive_points (1, 0, 0) field_z 4 1 60 = [(1, 0, 0)]
   \<and> (2, 0, 0) \<notin> set (find_consecutive_points (1, 0, 0) field_z 4 1 60)"
  by (simp add: find_consecutive_points_def float3_def eval_nat_numeral round3_def np_round_def
      in_bounds_def field_z_simps direction_at_def finite_vec_def fmul_def angle_stop_def add3_def)

text \<open>
  C4. For every vector field and every seed inside the volume whose local vector is
  defined and whose first advance lands, once rounded, outside the volume,
  find\_consecutive\_points returns the seed alone; amira\_writer's loop over the seeds then
  drops that one-point polyline when 1 is below \<open>segment_min_length_threshold\<close>.
\<close>

theorem edge_seed_single_point:
  assumes "in_bounds vf (int z, int y, int x)"
    and "finite_vec (direction_at vf (int z, int y, int x) seg) = Some d"
    and "\<not> in_bounds vf (round3 (add3 (float3 (int z, int y, int x)) d))"
  shows "find_consecutive_points (int z, int y, int x) vf num_steps seg thr
           = [float3 (int z, int y, int x)]
       \<and> (1 < segment_min_length_threshold \<longrightarrow>
            trace_points vf start_index num_steps seg thr segment_min_length_threshold
              [(z, y, x)] acc = acc)"
proof -
  have one: "find_consecutive_points (int z, int y, int x) vf num_steps seg thr
               = [float3 (int z, int y, int x)]"
  proof (cases "nat num_steps")
    case 0
    then show ?thesis by (simp add: find_consecutive_points_def)
  next
    case (Suc n)
    then show ?thesis
      using assms by (simp add: find_consecutive_points_def round3_float3 angle_stop_def)
  qed
  show ?thesis
    by (simp add: one)
qed

theorem edge_seed_single_point_witness:
  "in_bounds field_z (int 1, int 0, int 0)
   \<and> finite_vec (direction_at field_z (int 1, int 0, int 0) 1) = Some (1, 0, 0)
   \<and> \<not> in_bounds field_z (round3 (add3 (float3 (int 1, int 0, int 0)) (1, 0, 0)))
   \<and> find_consecutive_points (int 1, int 0, int 0) field_z 1000000 1 60 = [(1, 0, 0)]
   \<and> trace_points field_z 0 1000000 1 60 10 [(1, 0, 0)] [] = []"
proof -
  have a: "in_bounds field_z (int 1, int 0, int 0)"
    by (simp add: in_bounds_def field_z_simps)
  have b: "finite_vec (direction_at field_z (int 1, int 0, int 0) 1) = Some (1, 0, 0)"
    by (rule field_z_dir)
  have c: "\<not> in_bounds field_z (round3 (add3 (float3 (int 1, int 0, int 0)) (1, 0, 0)))"
    by (simp add: in_bounds_def field_z_simps round3_def add3_def float3_def np_round_def)
  have f: "float3 (int 1, int 0, int 0) = (1, 0, 0)"
    by (simp add: float3_def)
  have t: "(1::int) < 10" by simp
  from edge_seed_single_point [OF a b c, of 1000000 60 10 0 "[]"] t
  have "find_consecutive_points (int 1, int 0, int 0) field_z 1000000 1 60 = [(1, 0, 0)]
        \<and> trace_points field_z 0 1000000 1 60 10 [(1, 0, 0)] [] = []"
    unfolding f by blast
  with a b c show ?thesis by blast
qed







lemma field_diag_simps:
  "shape_z field_diag = 20" "shape_y field_diag = 20" "shape_x field_diag = 20"
  "voxel field_diag z y x = (Some (- (3 / 5)), Some (- (4 / 5)), Some 0)"
  by (simp_all add: field_diag_def)

lemma norm3_diag: "norm3 (- (3 / 5), - (4 / 5), 0) = 1"
proof -
  have "- (3 / 5) * - (3 / 5) + - (4 / 5) * - (4 / 5) + 0 * 0 = (1::real)" by simp
  then show ?thesis by (simp add: norm3_def)
qed

lemma angle_diag: "angle_between_vectors (- (3 / 5), - (4 / 5), 0) (- (3 / 5), - (4 / 5), 0) = 0"
  by (rule angle_unit_self [OF norm3_diag])

lemma diag_dir: "finite_vec (direction_at field_diag p 1) = Some (- (3 / 5), - (4 / 5), 0)"
  by (cases p) (simp add: direction_at_def field_diag_simps fmul_def finite_vec_def)





text \<open>
  The two remaining premises are needed as well. The angle test is \<open>angle > threshold\<close>,
  so under a negative threshold the angle 0 between equal vectors stops the trace at its
  second iteration; and a step shorter than \<open>epsilon\<close> has its magnitude floored, which
  makes the cosine of a vector with itself less than 1 (here 0.01, an angle above 60
  degrees).
\<close>

lemma negative_threshold_stops:
  "find_consecutive_points (10, 10, 10) field_diag 3 1 (- 1)
     = [(10, 10, 10), (47 / 5, 46 / 5, 10)]"
proof -
  have s: "angle_stop (Some (- (3 / 5), - (4 / 5), 0)) (- (3 / 5), - (4 / 5), 0) (- 1)"
    "\<not> angle_stop None (- (3 / 5), - (4 / 5), 0) (- 1)"
    by (simp_all add: angle_stop_def angle_diag array_any_def)
  show ?thesis
    by (simp add: find_consecutive_points_def float3_def eval_nat_numeral diag_dir s
        round3_def np_round_def in_bounds_def field_diag_simps add3_def trunc3_def py_int_def)
qed

lemma tiny_angle_large: "60 < rad2deg (arccos (1 / 100))"
proof -
  have "arccos (1 / 2) < arccos (1 / 100)"
    by (rule arccos_less_arccos) simp_all
  then have "pi / 3 < arccos (1 / 100)" by simp
  then have "pi * 60 < arccos (1 / 100) * 180" by simp
  then show ?thesis
    by (simp add: rad2deg_def pos_less_divide_eq mult.commute)
qed

lemma tiny_step_stops:
  "length (find_consecutive_points (10, 10, 10) field_diag 3 (1 / 10 ^ 11) 60) = 2"
proof -
  define seg :: real where "seg = 1 / 10 ^ 11"
  define d where "d = scale3 seg (- (3 / 5), - (4 / 5), 0)"
  have dir: "finite_vec (direction_at field_diag p seg) = Some d" for p
    by (cases p)
       (simp add: direction_at_def field_diag_simps fmul_def finite_vec_def scale3_def d_def)
  have n: "norm3 d = seg"
    by (simp add: d_def norm3_scale3 norm3_diag seg_def)
  have q: "dot3 d d = seg * seg"
    by (simp add: d_def dot3_scale3 norm3_diag)
  have m: "max seg epsilon = epsilon"
    by (simp add: seg_def epsilon_def)
  have c: "seg * seg / (epsilon * epsilon) = 1 / 100"
    by (simp add: seg_def epsilon_def)
  have "angle_between_vectors d d = rad2deg (arccos (1 / 100))"
    by (simp add: angle_between_vectors_def n q m c np_clip_def)
  moreover have "array_any (Some d)"
    by (simp add: array_any_def d_def scale3_def seg_def)
  ultimately have s: "angle_stop (Some d) d 60" "\<not> angle_stop None d 60"
    using tiny_angle_large by (simp_all add: angle_stop_def)
  have r: "round3 (add3 (10, 10, 10) d) = (10, 10, 10)"
    by (simp add: round3_def add3_def scale3_def np_round_def d_def seg_def)
  have t: "round3 (trunc3 (add3 (10, 10, 10) d)) = (9, 9, 10)"
    by (simp add: round3_def add3_def scale3_def np_round_def trunc3_def py_int_def d_def seg_def)
  have b: "in_bounds field_diag (10, 10, 10)" "in_bounds field_diag (9, 9, 10)"
    by (simp_all add: in_bounds_def field_diag_simps)
  have f: "round3 (float3 (10, 10, 10)) = (10, 10, 10)" "float3 (10, 10, 10) = (10, 10, 10)"
    by (simp_all add: round3_float3) (simp add: float3_def)
  have k: "nat 3 = Suc (Suc (Suc 0))" by simp
  have "tracer_loop field_diag seg 60 (Suc (Suc (Suc 0))) (10, 10, 10) None [(10, 10, 10)]
          = [(10, 10, 10), add3 (10, 10, 10) d]"
    using f(1) by (simp add: f(2) dir s r t b del: One_nat_def)
  then show ?thesis
    unfolding find_consecutive_points_def f(2) k seg_def [symmetric] by simp
qed

section \<open>Properties of write\_am\_file\<close>

lemma split_lines_line:
  "CHR 0x0A \<notin> set l \<Longrightarrow> split_lines (l @ CHR 0x0A # rest) = l # split_lines rest"
  by (induction l) auto

lemma unlines_Nil: "unlines [] = []"
  by (simp add: unlines_def)

lemma unlines_Cons: "unlines (l # ls) = l @ CHR 0x0A # unlines ls"
  by (simp add: unlines_def)

lemma unlines_append: "unlines (a @ b) = unlines a @ unlines b"
  by (simp add: unlines_def)

lemma split_lines_unlines:
  "\<forall>l \<in> set ls. CHR 0x0A \<notin> set l \<Longrightarrow> split_lines (unlines ls @ rest) = ls @ split_lines rest"
  by (induction ls) (simp_all add: unlines_Nil unlines_Cons split_lines_line)

lemma triple_line_text: "triple_line repr p = triple_text repr p @ [CHR 0x0A]"
  by (cases p) (simp add: triple_line_def triple_text_def)

lemma vertex_section:
  "concat (map (\<lambda>segment.
       if length segment \<ge> 2
       then triple_line repr (hd segment) @ triple_line repr (last segment)
       else []) cpl) = unlines (vertex_lines repr cpl)"
  by (induction cpl) (simp_all add: vertex_lines_def unlines_def triple_line_text)

lemma unlines_map: "concat (map (\<lambda>x. f x @ [CHR 0x0A]) xs) = unlines (map f xs)"
  by (simp add: unlines_def comp_def)

lemma point_section:
  "concat (map (\<lambda>segment. concat (map (triple_line repr) segment)) cpl)
     = unlines (map (triple_text repr) (concat cpl))"
  by (induction cpl) (simp_all add: unlines_def triple_line_text comp_def)

lemma thickness_section:
  "concat (map (\<lambda>segment. concat (replicate (length segment) ''1.0\<newline>'')) cpl)
     = unlines (replicate (length (concat cpl)) ''1.0'')"
proof -
  have r: "concat (replicate n ''1.0\<newline>'') = unlines (replicate n ''1.0'')" for n
    by (induction n) (simp_all add: unlines_def)
  show ?thesis
    by (induction cpl) (simp_all add: r unlines_append [symmetric] replicate_add unlines_Nil)
qed

lemma write_am_file_unlines:
  "write_am_file repr cpl ha za = unlines (am_lines repr cpl ha za)"
  unfolding write_am_file_def Let_def vertex_section point_section thickness_section
  by (simp add: am_lines_def unlines_append unlines_Cons unlines_Nil unlines_map [symmetric])


lemma str_digit_range: "d < 10 \<Longrightarrow> str_digit d \<in> set ''0123456789''"
proof -
  assume "d < 10"
  then have "d < length ''0123456789''" by simp
  then show ?thesis unfolding str_digit_def by (rule nth_mem)
qed

lemma str_nat_digits: "set (str_nat n) \<subseteq> set ''0123456789''"
proof (induction n rule: str_nat.induct)
  case (1 n)
  show ?case
  proof (cases "n < 10")
    case True
    then show ?thesis
      using str_digit_range [of n] by (subst str_nat.simps) simp
  next
    case False
    have "n mod 10 < 10" by simp
    then have "str_digit (n mod 10) \<in> set ''0123456789''" by (rule str_digit_range)
    then show ?thesis
      using False 1 by (subst str_nat.simps) simp
  qed
qed

lemma str_nat_no_newline: "CHR 0x0A \<notin> set (str_nat n)"
  using str_nat_digits [of n] by auto

lemma str_nat_nonempty: "str_nat n \<noteq> []"
  by (subst str_nat.simps) simp

lemma triple_text_no_newline:
  "\<forall>a. CHR 0x0A \<notin> set (repr a) \<Longrightarrow> CHR 0x0A \<notin> set (triple_text repr p)"
  by (cases p) (simp add: triple_text_def)

lemma triple_text_space: "CHR '' '' \<in> set (triple_text repr p)"
  by (cases p) (simp add: triple_text_def)

lemma vertex_lines_no_newline:
  "\<forall>a. CHR 0x0A \<notin> set (repr a) \<Longrightarrow> l \<in> set (vertex_lines repr cpl) \<Longrightarrow> CHR 0x0A \<notin> set l"
  by (auto simp: vertex_lines_def triple_text_no_newline split: if_splits)

lemma vertex_lines_space:
  "l \<in> set (vertex_lines repr cpl) \<Longrightarrow> CHR '' '' \<in> set l"
  by (auto simp: vertex_lines_def triple_text_space split: if_splits)

lemma am_lines_no_newline:
  assumes "\<forall>a. CHR 0x0A \<notin> set (repr a)"
  shows "\<forall>l \<in> set (am_lines repr cpl ha za). CHR 0x0A \<notin> set l"
  using assms
  by (auto simp: am_lines_def str_nat_no_newline triple_text_no_newline
      dest: vertex_lines_no_newline)

lemma split_lines_write_am_file:
  assumes "\<forall>a. CHR 0x0A \<notin> set (repr a)"
  shows "split_lines (write_am_file repr cpl ha za) = am_lines repr cpl ha za @ [[]]"
  using split_lines_unlines [OF am_lines_no_newline [OF assms], of cpl ha za "[]"]
  by (simp add: write_am_file_unlines)

lemma am_section_found:
  assumes "\<forall>l \<in> set pre. l \<noteq> tag" and "\<forall>l \<in> set body. l \<noteq> []"
  shows "am_section tag (pre @ tag # body @ [] # rest) = body"
proof -
  have "dropWhile (\<lambda>l. l \<noteq> tag) (pre @ tag # body @ [] # rest) = tag # body @ [] # rest"
    using assms(1) by (simp add: dropWhile_append3)
  moreover have "takeWhile (\<lambda>l. l \<noteq> []) (body @ [] # rest) = body"
    using assms(2) by (simp add: takeWhile_tail)
  ultimately show ?thesis
    by (simp add: am_section_def)
qed


lemma digit_value: "d < 10 \<Longrightarrow> of_char (str_digit d) - 48 = d"
proof -
  assume "d < 10"
  then have "d \<in> {0, 1, 2, 3, 4, 5, 6, 7, 8, 9}" by auto
  then show ?thesis by (auto simp: str_digit_def)
qed

lemma read_nat_snoc: "read_nat (s @ [c]) = 10 * read_nat s + (of_char c - 48)"
  by (simp add: read_nat_def)

lemma read_nat_str_nat: "read_nat (str_nat n) = n"
proof (induction n rule: str_nat.induct)
  case (1 n)
  show ?case
  proof (cases "n < 10")
    case True
    then show ?thesis
      by (subst str_nat.simps) (simp add: read_nat_def digit_value)
  next
    case False
    have "read_nat (str_nat (n div 10) @ [str_digit (n mod 10)]) = 10 * (n div 10) + n mod 10"
      using 1 [OF False] by (simp add: read_nat_snoc digit_value)
    then show ?thesis
      using False by (subst str_nat.simps) simp
  qed
qed

text \<open>
  C5. For every list of \<open>N\<close> polylines with point counts \<open>p\<^sub>1 \<dots> p\<^sub>N\<close>, the text
  written by write\_am\_file declares \<open>VERTEX\<close> as \<open>2N\<close>, \<open>EDGE\<close> as \<open>N\<close> and \<open>POINT\<close> as
  the sum of the counts; its \<open>@2\<close> section lists the pairs \<open>2i, 2i+1\<close> for
  \<open>i = 0 \<dots> N-1\<close> in order, and its \<open>@3\<close> section lists \<open>p\<^sub>1 \<dots> p\<^sub>N\<close> in polyline
  order, one per line. (The formatting of a float is a parameter; as in Python, it never
  yields a newline.)
\<close>

theorem write_am_file_counts:
  assumes "\<forall>a. CHR 0x0A \<notin> set (repr a)"
  shows "am_declared ''VERTEX'' (split_lines (write_am_file repr cpl ha za))
           = Some (str_nat (2 * length cpl))
       \<and> am_declared ''EDGE'' (split_lines (write_am_file repr cpl ha za))
           = Some (str_nat (length cpl))
       \<and> am_declared ''POINT'' (split_lines (write_am_file repr cpl ha za))
           = Some (str_nat (sum_list (map length cpl)))
       \<and> am_section ''@2'' (split_lines (write_am_file repr cpl ha za))
           = map (\<lambda>i. str_nat (2 * i) @ '' '' @ str_nat (2 * i + 1)) [0..<length cpl]
       \<and> am_section ''@3'' (split_lines (write_am_file repr cpl ha za))
           = map (\<lambda>segment. str_nat (length segment)) cpl
       \<and> map read_nat (am_section ''@3'' (split_lines (write_am_file repr cpl ha za)))
           = map length cpl"
proof -
  let ?ls = "split_lines (write_am_file repr cpl ha za)"
  let ?edges = "map (\<lambda>i. str_nat (i * 2) @ '' '' @ str_nat (i * 2 + 1)) [0..<length cpl]"
  let ?counts = "map (\<lambda>segment. str_nat (length segment)) cpl"
  let ?head = "[''# AmiraMesh 3D ASCII 3.0'', [], [],
      ''define VERTEX '' @ str_nat (length cpl * 2),
      ''define EDGE '' @ str_nat (length cpl),
      ''define POINT '' @ str_nat (sum_list (map length cpl)),
      [], ''Parameters {'', ''    ContentType '' @ [CHR 0x22] @ ''HxSpatialGraph'' @ [CHR 0x22],
      ''}'', [],
      ''VERTEX { float[3] VertexCoordinates } @1'',
      ''EDGE { int[2] EdgeConnectivity } @2'',
      ''EDGE { int NumEdgePoints } @3'',
      ''POINT { float[3] EdgePointCoordinates } @4'',
      ''POINT { float thickness } @5'',
      ''POINT { float HA_angle } @6'',
      ''POINT { float z_angle } @7'',
      [], ''# Data section follows'', ''@1'']"
  let ?tail4 = "[''@4''] @ map (triple_text repr) (concat cpl) @ [[], ''@5'']
     @ replicate (length (concat cpl)) ''1.0'' @ [[], ''@6''] @ map repr ha
     @ [[], ''@7''] @ map repr za @ [[]]"
  have ls: "?ls = am_lines repr cpl ha za @ [[]]"
    by (rule split_lines_write_am_file [OF assms])
  have v: "am_declared ''VERTEX'' ?ls = Some (str_nat (2 * length cpl))"
    by (simp add: ls am_lines_def am_declared_def mult.commute)
  have e: "am_declared ''EDGE'' ?ls = Some (str_nat (length cpl))"
    by (simp add: ls am_lines_def am_declared_def)
  have p: "am_declared ''POINT'' ?ls = Some (str_nat (sum_list (map length cpl)))"
    by (simp add: ls am_lines_def am_declared_def)
  have head2: "\<forall>l \<in> set ?head. l \<noteq> ''@2''" and head3: "\<forall>l \<in> set ?head. l \<noteq> ''@3''"
    by simp_all
  have vert: "l \<noteq> ''@2''" "l \<noteq> ''@3''" if "l \<in> set (vertex_lines repr cpl)" for l
    using vertex_lines_space [OF that] by auto
  have edge_space: "CHR '' '' \<in> set l" if "l \<in> set ?edges" for l
    using that by auto
  have edge: "l \<noteq> ''@3''" "l \<noteq> []" if "l \<in> set ?edges" for l
    using edge_space [OF that] by auto
  have cnt: "l \<noteq> []" if "l \<in> set ?counts" for l
    using that by (auto simp: str_nat_nonempty)
  have s2: "?ls = (?head @ vertex_lines repr cpl @ [[]]) @ ''@2'' # ?edges @ []
                  # ([''@3''] @ ?counts @ [[]] @ ?tail4)"
    by (simp add: ls am_lines_def)
  have "am_section ''@2'' ?ls = ?edges"
    unfolding s2 by (rule am_section_found) (use head2 vert(1) edge(2) in auto)
  then have a2: "am_section ''@2'' ?ls
                   = map (\<lambda>i. str_nat (2 * i) @ '' '' @ str_nat (2 * i + 1)) [0..<length cpl]"
    by (simp add: mult.commute)
  have s3: "?ls = (?head @ vertex_lines repr cpl @ [[], ''@2''] @ ?edges @ [[]]) @ ''@3'' # ?counts @ []
                  # ?tail4"
    by (simp add: ls am_lines_def)
  have a3: "am_section ''@3'' ?ls = ?counts"
    unfolding s3 by (rule am_section_found) (use head3 vert(2) edge(1) cnt in auto)
  have r3: "map read_nat (am_section ''@3'' ?ls) = map length cpl"
    by (simp add: a3 comp_def read_nat_str_nat)
  from v e p a2 a3 r3 show ?thesis
    by blast
qed

theorem write_am_file_counts_witness:
  "am_declared ''VERTEX'' (split_lines (write_am_file (\<lambda>a. ''0.5'') [[(1, 2, 3), (4, 5, 6)], [(0, 0, 0)]] [] []))
           = Some ''4''
   \<and> am_declared ''EDGE'' (split_lines (write_am_file (\<lambda>a. ''0.5'') [[(1, 2, 3), (4, 5, 6)], [(0, 0, 0)]] [] []))
           = Some ''2''
   \<and> am_declared ''POINT'' (split_lines (write_am_file (\<lambda>a. ''0.5'') [[(1, 2, 3), (4, 5, 6)], [(0, 0, 0)]] [] []))
           = Some ''3''
   \<and> am_section ''@2'' (split_lines (write_am_file (\<lambda>a. ''0.5'') [[(1, 2, 3), (4, 5, 6)], [(0, 0, 0)]] [] []))
           = [''0 1'', ''2 3'']
   \<and> am_section ''@3'' (split_lines (write_am_file (\<lambda>a. ''0.5'') [[(1, 2, 3), (4, 5, 6)], [(0, 0, 0)]] [] []))
           = [''2'', ''1'']"
proof -
  have h: "\<forall>a :: fl. CHR 0x0A \<notin> set ((\<lambda>a. ''0.5'') a)" by simp
  have u: "[0..<2] = [0, Suc 0]" by (simp add: upt_rec)
  show ?thesis
    using write_am_file_counts [OF h, of "[[(1, 2, 3), (4, 5, 6)], [(0, 0, 0)]]" "[]" "[]"]
    by (simp add: str_nat.simps str_digit_def u)
qed

section \<open>Properties of amira\_writer\<close>

















section \<open>Properties of compute\_orientation\<close>

lemma norm3_nonneg: "0 \<le> norm3 v"
  by (cases v) (simp add: norm3_def add_nonneg_nonneg)

lemma norm3_square: "norm3 (a, b, c) * norm3 (a, b, c) = a * a + b * b + c * c"
  by (simp add: norm3_def add_nonneg_nonneg)

lemma norm3_normalized:
  assumes "norm3 (a, b, c) \<noteq> 0"
  shows "norm3 (a / norm3 (a, b, c), b / norm3 (a, b, c), c / norm3 (a, b, c)) = 1"
proof -
  let ?n = "norm3 (a, b, c)"
  have "a / ?n * (a / ?n) + b / ?n * (b / ?n) + c / ?n * (c / ?n)
          = (a * a + b * b + c * c) / (?n * ?n)"
    by (simp add: add_divide_distrib)
  also have "\<dots> = 1"
    using assms by (simp add: norm3_square [symmetric])
  finally show ?thesis
    by (simp add: norm3_def [of "(a / ?n, b / ?n, c / ?n)"])
qed

lemma sgn_div_norm3:
  assumes "norm3 v \<noteq> 0"
  shows "sgn (r / norm3 v) = sgn r"
proof -
  have "0 < norm3 v" using assms norm3_nonneg [of v] by linarith
  then show ?thesis by (simp add: sgn_divide)
qed

lemma normalize_voxel_defined:
  assumes "normalize_voxel v = (Some a, Some b, Some c)"
  shows "norm3 (a, b, c) = 1
       \<and> (\<exists>a0 b0 c0. v = (Some a0, Some b0, Some c0)
            \<and> sgn a = sgn a0 \<and> sgn b = sgn b0 \<and> sgn c = sgn c0)"
proof (cases "finite_vec v")
  case None
  then show ?thesis using assms by (simp add: normalize_voxel_def)
next
  case (Some w)
  obtain a0 b0 c0 where w: "w = (a0, b0, c0)" by (cases w) auto
  have v: "v = (Some a0, Some b0, Some c0)"
    using Some w by (cases v) (auto simp: finite_vec_def split: option.splits)
  have n: "norm3 (a0, b0, c0) \<noteq> 0"
    using assms Some w by (auto simp: normalize_voxel_def split: if_splits)
  have abc: "a = a0 / norm3 (a0, b0, c0)" "b = b0 / norm3 (a0, b0, c0)"
    "c = c0 / norm3 (a0, b0, c0)"
    using assms Some w n by (simp_all add: normalize_voxel_def)
  show ?thesis
    unfolding abc using v norm3_normalized [OF n] sgn_div_norm3 [OF n] by simp
qed

lemma length_remove_padding:
  "length (remove_padding xs padding_start padding_end) = length xs - padding_end - padding_start"
  by (simp add: remove_padding_def)

text \<open>
  C1, as the code has it. After the padding slices are stripped, compute\_orientation
  divides every eigenvector by its norm and flips none (the flip is commented out in the
  source): each voxel of the slice dispatched for index \<open>z\<close> is the normalised voxel of
  the stripped field, and where it is defined (no NaN) it has norm 1 and each component
  keeps the sign it had.
\<close>

theorem dispatched_normalized_not_flipped:
  assumes "z < length (remove_padding vec padding_start padding_end)"
    and "y < length (remove_padding vec padding_start padding_end ! z)"
    and "x < length (remove_padding vec padding_start padding_end ! z ! y)"
  shows "fst (dispatched_slices vec padding_start padding_end ! z) = z
       \<and> snd (dispatched_slices vec padding_start padding_end ! z) ! y ! x
           = normalize_voxel (remove_padding vec padding_start padding_end ! z ! y ! x)
       \<and> (\<forall>a b c. snd (dispatched_slices vec padding_start padding_end ! z) ! y ! x
                     = (Some a, Some b, Some c) \<longrightarrow>
            norm3 (a, b, c) = 1
            \<and> (\<exists>a0 b0 c0. remove_padding vec padding_start padding_end ! z ! y ! x
                             = (Some a0, Some b0, Some c0)
                 \<and> sgn a = sgn a0 \<and> sgn b = sgn b0 \<and> sgn c = sgn c0))"
proof -
  let ?v = "remove_padding vec padding_start padding_end"
  have d: "dispatched_slices vec padding_start padding_end ! z
             = (z, map (map normalize_voxel) (?v ! z))"
    using assms(1) by (simp add: dispatched_slices_def Let_def)
  have e: "snd (dispatched_slices vec padding_start padding_end ! z) ! y ! x
             = normalize_voxel (?v ! z ! y ! x)"
    using assms(2,3) by (simp add: d)
  show ?thesis
    unfolding e using d normalize_voxel_defined by simp
qed

theorem dispatched_normalized_not_flipped_witness:
  "snd (dispatched_slices
      [[[(None, None, None)]], [[(Some 2, Some 0, Some 0)]], [[(Some 0, Some 0, Some 0)]]] 1 1 ! 0)
     ! 0 ! 0 = (Some 1, Some 0, Some 0)"
proof -
  let ?vec = "[[[(None, None, None)]], [[(Some 2, Some 0, Some 0)]], [[(Some 0, Some 0, Some 0)]]]
                :: vslice list"
  have r: "remove_padding ?vec 1 1 = [[[(Some 2, Some 0, Some 0)]]]"
    by (simp add: remove_padding_def)
  have h: "0 < length (remove_padding ?vec 1 1)" "0 < length (remove_padding ?vec 1 1 ! 0)"
    "0 < length (remove_padding ?vec 1 1 ! 0 ! 0)"
    unfolding r by simp_all
  show ?thesis
    using dispatched_normalized_not_flipped [OF h] unfolding r
    by (simp add: normalize_voxel_def finite_vec_def norm3_def)
qed

text \<open>
  C1 as stated fails: a field of one voxel holding \<open>(1, 0, 0)\<close>, with no padding, is
  dispatched as it is, its Z component positive.
\<close>

theorem positive_z_dispatched:
  "dispatched_slices [[[(Some 1, Some 0, Some 0)]]] 0 0 = [(0, [[(Some 1, Some 0, Some 0)]])]
   \<and> snd (dispatched_slices [[[(Some 1, Some 0, Some 0)]]] 0 0 ! 0) ! 0 ! 0
       = (Some 1, Some 0, Some 0)
   \<and> \<not> (1::real) \<le> 0"
  by (simp add: dispatched_slices_def remove_padding_def normalize_voxel_def finite_vec_def
      norm3_def)

text \<open>
  The flip of the vectors with a positive Z component is made by amira\_writer, on the
  field it loads: afterwards no defined Z component is positive.
\<close>

lemma flip_field_nonpositive_z:
  assumes "voxel (flip_field vf) z y x = (Some a, b, c)"
  shows "a \<le> 0"
  using assms
  by (cases "voxel vf z y x")
     (auto simp: flip_field_def flip_voxel_def fneg_def split: option.splits if_splits)

end
